theory Spec2Isabelle
  imports Main "HOL-Library.Sublist"
begin

section \<open>Python strings and lists\<close>

text \<open>
  The script \<^verbatim>\<open>pdf_extraction.py\<close> works on Python \<^verbatim>\<open>str\<close> values and lists of
  them.  A string is modelled as a \<^typ>\<open>string\<close> of ASCII characters; the character
  classes below are the ASCII part of Python's Unicode classes.
\<close>

datatype py_error = IndexError | KeyError | AttributeError

text \<open>\<^verbatim>\<open>str.isspace\<close> on one ASCII character: TAB, LF, VT, FF, CR, FS, GS, RS, US, space.\<close>

definition py_isspace :: "char \<Rightarrow> bool" where
  "py_isspace c = (c \<in> set [CHR 0x09, CHR 0x0A, CHR 0x0B, CHR 0x0C, CHR 0x0D,
                             CHR 0x1C, CHR 0x1D, CHR 0x1E, CHR 0x1F, CHR 0x20])"

definition py_isdigit_char :: "char \<Rightarrow> bool" where
  "py_isdigit_char c = (c \<in> set ''0123456789'')"

text \<open>The characters of \<^verbatim>\<open>\w\<close>: letters, digits and the underscore.\<close>

definition py_isword :: "char \<Rightarrow> bool" where
  "py_isword c = (c \<in> set ''abcdefghijklmnopqrstuvwxyzABCDEFGHIJKLMNOPQRSTUVWXYZ0123456789_'')"

text \<open>\<^verbatim>\<open>s.strip()\<close>: whitespace removed at both ends.\<close>

definition py_strip :: "string \<Rightarrow> string" where
  "py_strip s = rev (dropWhile py_isspace (rev (dropWhile py_isspace s)))"

text \<open>\<^verbatim>\<open>s.split('\n')\<close>: never the empty list; the empty string gives one empty line.\<close>

fun split_nl :: "string \<Rightarrow> string list" where
  "split_nl [] = [[]]"
| "split_nl (c # cs) =
     (if c = CHR 0x0A then [] # split_nl cs
      else (case split_nl cs of l # ls \<Rightarrow> (c # l) # ls | [] \<Rightarrow> [[c]]))"

text \<open>\<^verbatim>\<open>sep.join(xs)\<close>.\<close>

fun py_join :: "string \<Rightarrow> string list \<Rightarrow> string" where
  "py_join sep [] = []"
| "py_join sep [x] = x"
| "py_join sep (x # y # ys) = x @ sep @ py_join sep (y # ys)"

text \<open>\<^verbatim>\<open>sub in s\<close> on strings: \<open>sub\<close> occurs as a contiguous substring of \<open>s\<close>.\<close>

fun py_in :: "string \<Rightarrow> string \<Rightarrow> bool" where
  "py_in sub [] = (sub = [])"
| "py_in sub (c # cs) = (prefix sub (c # cs) \<or> py_in sub cs)"

text \<open>
  The subscript \<^verbatim>\<open>xs[i]\<close>.  For \<open>-len(xs) \<le> i < 0\<close> Python reads position \<open>len(xs) + i\<close>;
  any \<open>i\<close> outside \<open>-len(xs) \<le> i < len(xs)\<close> raises \<^verbatim>\<open>IndexError\<close>.
\<close>

definition py_get :: "'a list \<Rightarrow> int \<Rightarrow> py_error + 'a" where
  "py_get xs i =
     (if 0 \<le> i \<and> i < int (length xs) then Inr (xs ! nat i)
      else if i < 0 \<and> - int (length xs) \<le> i then Inr (xs ! nat (int (length xs) + i))
      else Inl IndexError)"

text \<open>\<^verbatim>\<open>xs[:k]\<close>: a negative \<open>k\<close> counts from the end; a slice never raises.\<close>

definition py_slice_to :: "'a list \<Rightarrow> int \<Rightarrow> 'a list" where
  "py_slice_to xs k = (if k < 0 then take (nat (int (length xs) + k)) xs else take (nat k) xs)"

text \<open>\<^verbatim>\<open>xs.index(x)\<close> for an \<open>x\<close> that occurs in \<open>xs\<close>: the position of its first occurrence.\<close>

fun py_list_index :: "'a list \<Rightarrow> 'a \<Rightarrow> nat" where
  "py_list_index [] x = 0"
| "py_list_index (y # ys) x = (if y = x then 0 else Suc (py_list_index ys x))"


section \<open>Regular expressions of the \<^verbatim>\<open>re\<close> module\<close>

text \<open>
  The constructs the two date patterns use.  \<open>Lit w\<close> is the literal text \<open>w\<close>,
  \<open>OneOf cs\<close> a character class \<^verbatim>\<open>[...]\<close>, \<open>Digit\<close> is \<^verbatim>\<open>\d\<close>, \<open>Space\<close> is \<^verbatim>\<open>\s\<close>,
  \<open>WordB\<close> is the zero-width \<^verbatim>\<open>\b\<close>, \<open>Opt r\<close> is \<^verbatim>\<open>r?\<close> and \<open>Rep m n r\<close> is
  \<^verbatim>\<open>r{m,n}\<close>.
\<close>

datatype rx =
    Lit string
  | OneOf string
  | Digit
  | Space
  | WordB
  | Seq rx rx
  | Alt rx rx
  | Opt rx
  | Rep nat nat rx

text \<open>
  A position in the subject string: the character just before it (if any) and the text
  still to be read.  The character before is what \<^verbatim>\<open>\b\<close> looks at.
\<close>

type_synonym pos = "char option \<times> string"

definition word_before :: "char option \<Rightarrow> bool" where
  "word_before p = (case p of None \<Rightarrow> False | Some c \<Rightarrow> py_isword c)"

definition word_after :: "string \<Rightarrow> bool" where
  "word_after s = (case s of [] \<Rightarrow> False | c # _ \<Rightarrow> py_isword c)"

fun one_char :: "(char \<Rightarrow> bool) \<Rightarrow> pos \<Rightarrow> pos list" where
  "one_char P (p, []) = []"
| "one_char P (p, c # cs) = (if P c then [(Some c, cs)] else [])"

fun iterate_step :: "(pos \<Rightarrow> pos list) \<Rightarrow> nat \<Rightarrow> pos \<Rightarrow> pos list" where
  "iterate_step f 0 x = [x]"
| "iterate_step f (Suc k) x = concat (map (iterate_step f k) (f x))"

text \<open>
  \<open>rx_step r x\<close> lists every position at which a match of \<open>r\<close> that starts at \<open>x\<close>
  can end.  The backtracking matcher of \<^verbatim>\<open>re\<close> finds a match exactly when one exists,
  so whether a search succeeds is decided by this list being non-empty.
\<close>

fun rx_step :: "rx \<Rightarrow> pos \<Rightarrow> pos list" where
  "rx_step (Lit w) (p, s) =
     (if w = [] then [(p, s)]
      else if prefix w s then [(Some (last w), drop (length w) s)] else [])"
| "rx_step (OneOf cs) x = one_char (\<lambda>c. c \<in> set cs) x"
| "rx_step Digit x = one_char py_isdigit_char x"
| "rx_step Space x = one_char py_isspace x"
| "rx_step WordB (p, s) = (if word_before p \<noteq> word_after s then [(p, s)] else [])"
| "rx_step (Seq a b) x = concat (map (\<lambda>y. rx_step b y) (rx_step a x))"
| "rx_step (Alt a b) x = rx_step a x @ rx_step b x"
| "rx_step (Opt a) x = rx_step a x @ [x]"
| "rx_step (Rep m n a) x =
     concat (map (\<lambda>k. iterate_step (\<lambda>y. rx_step a y) k x) [m..<Suc n])"

text \<open>\<^verbatim>\<open>pattern.search(s)\<close> as a truth value: a match starts at some position of \<open>s\<close>.\<close>

fun rx_search_from :: "rx \<Rightarrow> char option \<Rightarrow> string \<Rightarrow> bool" where
  "rx_search_from r p [] = (rx_step r (p, []) \<noteq> [])"
| "rx_search_from r p (c # cs) = (rx_step r (p, c # cs) \<noteq> [] \<or> rx_search_from r (Some c) cs)"

definition rx_search :: "rx \<Rightarrow> string \<Rightarrow> bool" where
  "rx_search r s = rx_search_from r None s"

fun seqs :: "rx list \<Rightarrow> rx" where
  "seqs [] = Lit []"
| "seqs [r] = r"
| "seqs (r # rs) = Seq r (seqs rs)"

fun alts :: "rx \<Rightarrow> rx list \<Rightarrow> rx" where
  "alts r [] = r"
| "alts r (q # qs) = Alt r (alts q qs)"


section \<open>The date patterns and the date-line locator\<close>

text \<open>
  The alternation of month names that occurs twice in the first pattern:
  \<^verbatim>\<open>(?:Jan(?:uary)?|Feb(?:ruary)?|Mar(?:ch)?|Apr(?:il)?|May|Jun(?:e)?|Jul(?:y)?|Aug(?:ust)?|Sep(?:tember)?|Oct(?:ober)?|Nov(?:ember)?|Dec(?:ember)?)\<close>
\<close>

definition month_rx :: rx where
  "month_rx = alts
     (Seq (Lit ''Jan'') (Opt (Lit ''uary'')))
     [Seq (Lit ''Feb'') (Opt (Lit ''ruary'')),
      Seq (Lit ''Mar'') (Opt (Lit ''ch'')),
      Seq (Lit ''Apr'') (Opt (Lit ''il'')),
      Lit ''May'',
      Seq (Lit ''Jun'') (Opt (Lit ''e'')),
      Seq (Lit ''Jul'') (Opt (Lit ''y'')),
      Seq (Lit ''Aug'') (Opt (Lit ''ust'')),
      Seq (Lit ''Sep'') (Opt (Lit ''tember'')),
      Seq (Lit ''Oct'') (Opt (Lit ''ober'')),
      Seq (Lit ''Nov'') (Opt (Lit ''ember'')),
      Seq (Lit ''Dec'') (Opt (Lit ''ember''))]"

text \<open>
  \<^verbatim>\<open>\b MONTH \s \d{1,2} -? \s? (?:to|-)? \s? MONTH? \s? \d{1,2} ,? \s \d{4}\<close>
  (written here with blanks between the parts).
\<close>

definition written_month_pattern :: rx where
  "written_month_pattern = seqs
     [WordB, month_rx, Space, Rep 1 2 Digit, Opt (Lit ''-''), Opt Space,
      Opt (Alt (Lit ''to'') (Lit ''-'')), Opt Space, Opt month_rx, Opt Space,
      Rep 1 2 Digit, Opt (Lit '',''), Space, Rep 4 4 Digit]"

text \<open>
  \<^verbatim>\<open>\b \d{1,2} [-/] \d{1,2} [-/] \d{4} \s? (?:to|-) \s? \d{1,2} [-/] \d{1,2} [-/] \d{4} \b\<close>
\<close>

definition numeric_range_pattern :: rx where
  "numeric_range_pattern = seqs
     [WordB, Rep 1 2 Digit, OneOf ''-/'', Rep 1 2 Digit, OneOf ''-/'', Rep 4 4 Digit,
      Opt Space, Alt (Lit ''to'') (Lit ''-''), Opt Space,
      Rep 1 2 Digit, OneOf ''-/'', Rep 1 2 Digit, OneOf ''-/'', Rep 4 4 Digit, WordB]"

definition date_patterns :: "rx list" where
  "date_patterns = [written_month_pattern, numeric_range_pattern]"

text \<open>The inner loop of \<^verbatim>\<open>find_competition_date_line\<close>: some pattern is found in the line.\<close>

definition is_date_line :: "string \<Rightarrow> bool" where
  "is_date_line line = list_ex (\<lambda>pattern. rx_search pattern line) date_patterns"

text \<open>The outer loop: the first of the given lines in which a pattern is found.\<close>

fun first_date_line :: "string list \<Rightarrow> string option" where
  "first_date_line [] = None"
| "first_date_line (line # rest) = (if is_date_line line then Some line else first_date_line rest)"

text \<open>\<^verbatim>\<open>lines = text.strip().split('\n')\<close>, as both the locator and the header extraction compute it.\<close>

definition text_lines :: "string \<Rightarrow> string list" where
  "text_lines text = split_nl (py_strip text)"

definition find_competition_date_line :: "string \<Rightarrow> string option" where
  "find_competition_date_line text = first_date_line (take 10 (text_lines text))"


section \<open>Document classification\<close>

definition infer_document_type :: "string \<Rightarrow> string" where
  "infer_document_type text =
     (if py_in ''Officials List'' text then ''Officials List''
      else if py_in ''Starting Order'' text then ''Starting Order''
      else if py_in ''Category Result Summary'' text then ''Category Result Summary''
      else if py_in ''Element Score'' text \<or> py_in ''Deductions'' text then ''Detail Sheets''
      else ''Unknown'')"


section \<open>Header extraction\<close>

text \<open>
  The header is a Python \<^verbatim>\<open>dict\<close> built by a literal; it is modelled as the list of its
  key-value pairs in the order of the literal, and \<^verbatim>\<open>{}\<close> as the empty list.  An index
  error raised while the literal is evaluated is the \<open>Inl\<close> branch.
\<close>

type_synonym header = "(string \<times> string) list"

definition extract_detail_sheets_header_info :: "string list \<Rightarrow> string \<Rightarrow> py_error + header" where
  "extract_detail_sheets_header_info lines document_type =
     (case py_get lines 0 of Inl e \<Rightarrow> Inl e | Inr name \<Rightarrow>
      case py_get lines 2 of Inl e \<Rightarrow> Inl e | Inr location \<Rightarrow>
      case py_get lines 1 of Inl e \<Rightarrow> Inl e | Inr date_range \<Rightarrow>
      case py_get lines 3 of Inl e \<Rightarrow> Inl e | Inr event \<Rightarrow>
        Inr [(''Competition Name'', py_strip name),
             (''Location'', py_strip location),
             (''Date Range'', py_strip date_range),
             (''Event'', py_strip event),
             (''Document Type'', document_type)])"

definition extract_event_sheets_header_info ::
    "string list \<Rightarrow> string \<Rightarrow> int \<Rightarrow> py_error + header" where
  "extract_event_sheets_header_info lines document_type date_line_index =
     (case py_get lines (date_line_index - 1) of Inl e \<Rightarrow> Inl e | Inr location \<Rightarrow>
      case py_get lines date_line_index of Inl e \<Rightarrow> Inl e | Inr date_range \<Rightarrow>
      case py_get lines (date_line_index + 1) of Inl e \<Rightarrow> Inl e | Inr event \<Rightarrow>
        Inr [(''Competition Name'',
                py_strip (py_join '' '' (py_slice_to lines (date_line_index - 1)))),
             (''Location'', py_strip location),
             (''Date Range'', py_strip date_range),
             (''Event'', py_strip event),
             (''Document Type'', document_type)])"

text \<open>
  \<^verbatim>\<open>date_line_index = lines.index(date_line) if date_line in lines else -1\<close>;
  \<^verbatim>\<open>None in lines\<close> is false for a list of strings.
\<close>

definition date_line_index :: "string \<Rightarrow> int" where
  "date_line_index text =
     (case find_competition_date_line text of
        None \<Rightarrow> - 1
      | Some date_line \<Rightarrow>
          if date_line \<in> set (text_lines text)
          then int (py_list_index (text_lines text) date_line) else - 1)"

text \<open>
  The result of \<^verbatim>\<open>extract_header_info\<close>: \<open>Inr (Some h)\<close> is a returned dict,
  \<open>Inr None\<close> is Python's \<^verbatim>\<open>None\<close>, which the function returns when it falls off
  the end of its \<^verbatim>\<open>if\<close>/\<^verbatim>\<open>elif\<close> chain.
\<close>

definition extract_header_info :: "string \<Rightarrow> py_error + header option" where
  "extract_header_info text =
     (let document_type = infer_document_type text;
          lines = text_lines text;
          i = date_line_index text
      in if document_type = ''Unknown'' \<or> i = - 1 then Inr (Some [])
         else if document_type \<in> set [''Officials List'', ''Starting Order'', ''Result Summary'']
           then map_sum id Some (extract_event_sheets_header_info lines document_type i)
         else if document_type = ''Detail Sheets''
           then map_sum id Some (extract_detail_sheets_header_info lines document_type)
         else Inr None)"


section \<open>Rank tokens\<close>

text \<open>\<^verbatim>\<open>s.isdigit()\<close>: at least one character, and every character a digit.\<close>

definition py_str_isdigit :: "string \<Rightarrow> bool" where
  "py_str_isdigit s = (s \<noteq> [] \<and> list_all py_isdigit_char s)"

subsection \<open>What \<^verbatim>\<open>float\<close> accepts: a parser\<close>

text \<open>
  \<^verbatim>\<open>float(s)\<close> on an ASCII string: CPython first checks the underscores (each one directly
  after a digit and directly before a digit), then skips the white space of C's \<^verbatim>\<open>isspace\<close>
  (space, TAB, LF, VT, FF, CR; not the separators 0x1C to 0x1F that \<^verbatim>\<open>str.strip\<close> removes) at
  both ends, and then reads an optional sign followed by "inf", "infinity" or "nan" in any
  letter case, or by a decimal number: digits with an optional point, at least one digit,
  and an optional exponent \<^verbatim>\<open>e\<close> or \<^verbatim>\<open>E\<close> with optional sign and at least one digit.  The whole
  string must be used up, otherwise \<^verbatim>\<open>ValueError\<close> is raised.  The functions below parse
  the string in that way; \<open>True\<close> stands for a returned number and \<open>False\<close> for \<^verbatim>\<open>ValueError\<close>.
\<close>

definition float_isspace :: "char \<Rightarrow> bool" where
  "float_isspace c = (c \<in> set [CHR 0x09, CHR 0x0A, CHR 0x0B, CHR 0x0C, CHR 0x0D, CHR 0x20])"

definition float_strip :: "string \<Rightarrow> string" where
  "float_strip s = rev (dropWhile float_isspace (rev (dropWhile float_isspace s)))"

fun digitpart :: "string \<Rightarrow> bool" where
  "digitpart [] = False"
| "digitpart [c] = py_isdigit_char c"
| "digitpart (c # d # rest) =
     (py_isdigit_char c \<and> (if d = CHR ''_'' then digitpart rest else digitpart (d # rest)))"

definition float_number :: "string \<Rightarrow> bool" where
  "float_number s =
     (let whole = takeWhile (\<lambda>c. c \<noteq> CHR ''.'') s;
          rest = dropWhile (\<lambda>c. c \<noteq> CHR ''.'') s
      in case rest of
           [] \<Rightarrow> digitpart whole
         | _ # fraction \<Rightarrow>
             (fraction = [] \<and> digitpart whole) \<or>
             ((whole = [] \<or> digitpart whole) \<and> digitpart fraction))"

definition drop_sign :: "string \<Rightarrow> string" where
  "drop_sign s = (case s of [] \<Rightarrow> [] | c # cs \<Rightarrow> if c = CHR ''+'' \<or> c = CHR ''-'' then cs else s)"

definition float_floatnumber :: "string \<Rightarrow> bool" where
  "float_floatnumber s =
     (let mantissa = takeWhile (\<lambda>c. c \<noteq> CHR ''e'' \<and> c \<noteq> CHR ''E'') s;
          rest = dropWhile (\<lambda>c. c \<noteq> CHR ''e'' \<and> c \<noteq> CHR ''E'') s
      in case rest of
           [] \<Rightarrow> float_number mantissa
         | _ # exponent \<Rightarrow> float_number mantissa \<and> digitpart (drop_sign exponent))"

text \<open>\<open>s\<close> spells the lower-case word \<open>lower\<close>, each letter in either case.\<close>

definition spells :: "string \<Rightarrow> string \<Rightarrow> string \<Rightarrow> bool" where
  "spells lower upper s =
     (length s = length lower \<and>
      list_all (\<lambda>(c, l, u). c = l \<or> c = u) (zip s (zip lower upper)))"

definition float_inf_or_nan :: "string \<Rightarrow> bool" where
  "float_inf_or_nan s =
     (spells ''inf'' ''INF'' s \<or> spells ''infinity'' ''INFINITY'' s \<or> spells ''nan'' ''NAN'' s)"

definition py_float_ok :: "string \<Rightarrow> bool" where
  "py_float_ok s =
     (let body = drop_sign (float_strip s) in float_floatnumber body \<or> float_inf_or_nan body)"

definition is_valid_rank :: "string \<Rightarrow> bool" where
  "is_valid_rank rank =
     (if py_str_isdigit rank \<or> rank = ''WD'' then True else py_float_ok rank)"

subsection \<open>What \<^verbatim>\<open>float\<close> accepts: the grammar\<close>










section \<open>Tables\<close>

text \<open>
  A pandas \<^verbatim>\<open>DataFrame\<close> of string cells: its column labels, and its rows, each with its
  index label.  Column labels are integers (the default \<^verbatim>\<open>RangeIndex\<close>) or strings.
\<close>

datatype label = IntLabel nat | StrLabel string

record dataframe =
  columns :: "label list"
  rows :: "(nat \<times> string list) list"

text \<open>
  The frame \<^verbatim>\<open>tables[0].df\<close> that \<^verbatim>\<open>extract_tables\<close> hands over for a grid of cells:
  columns and rows are numbered from 0.
\<close>

definition raw_table :: "string list list \<Rightarrow> dataframe" where
  "raw_table grid =
     \<lparr>columns = map IntLabel [0..<(case grid of [] \<Rightarrow> 0 | r # _ \<Rightarrow> length r)],
      rows = enumerate 0 grid\<rparr>"

text \<open>
  The loop over \<^verbatim>\<open>df.iterrows()\<close>: the index label of the first row with a cell in which
  the keyword is found.  \<^verbatim>\<open>str.contains\<close> reads the keyword as a regular expression; for a
  keyword of letters only, such as the \<^verbatim>\<open>'Rank'\<close> the script passes, that is the substring test.
\<close>

fun find_header_row :: "string \<Rightarrow> (nat \<times> string list) list \<Rightarrow> nat option" where
  "find_header_row header_keyword [] = None"
| "find_header_row header_keyword ((i, row) # rest) =
     (if list_ex (py_in header_keyword) row then Some i
      else find_header_row header_keyword rest)"

text \<open>\<^verbatim>\<open>reset_index(drop=True)\<close>: the rows are labelled by their positions again.\<close>

definition reset_index :: "(nat \<times> string list) list \<Rightarrow> (nat \<times> string list) list" where
  "reset_index rs = enumerate 0 (map snd rs)"

text \<open>
  \<^verbatim>\<open>set_table_header(df, header_keyword)\<close>.  The first component of the result is the frame
  object the caller passed, as the call leaves it: \<^verbatim>\<open>df.columns = ...\<close> assigns to that
  object.  The second component is what the call returns or raises.  When no header row is
  found the object returned is the caller's own.  \<^verbatim>\<open>df.iloc[i]\<close> is positional and raises
  \<^verbatim>\<open>IndexError\<close> out of range; \<^verbatim>\<open>df.drop(index=range(i + 1))\<close> builds a new frame and
  raises \<^verbatim>\<open>KeyError\<close> when one of the labels \<open>0, ..., i\<close> is not an index label.
\<close>

definition set_table_header :: "dataframe \<Rightarrow> string \<Rightarrow> dataframe \<times> (py_error + dataframe)" where
  "set_table_header df header_keyword =
     (case find_header_row header_keyword (rows df) of
        None \<Rightarrow> (df, Inr df)
      | Some header_row_index \<Rightarrow>
          if \<not> header_row_index < length (rows df) then (df, Inl IndexError)
          else
            let df1 = df\<lparr>columns := map StrLabel (snd (rows df ! header_row_index))\<rparr>
            in if \<not> list_all (\<lambda>l. l \<in> fst ` set (rows df1)) [0..<header_row_index + 1]
               then (df1, Inl KeyError)
               else (df1,
                     Inr (df1\<lparr>rows := reset_index
                            (filter (\<lambda>(l, r). l \<notin> set [0..<header_row_index + 1]) (rows df1))\<rparr>)))"

text \<open>The cells of a row that stand under the column label \<open>name\<close>.\<close>

definition cells_under :: "label list \<Rightarrow> label \<Rightarrow> string list \<Rightarrow> string list" where
  "cells_under cols name row = map snd (filter (\<lambda>(c, v). c = name) (zip cols row))"

text \<open>
  \<^verbatim>\<open>df[df['Rank'].apply(is_valid_rank)]\<close>.  Without a column labelled \<^verbatim>\<open>'Rank'\<close> the
  lookup raises \<^verbatim>\<open>KeyError\<close>.  With several such columns the lookup gives a frame, and with
  a cell missing under the label it gives a float; \<^verbatim>\<open>is_valid_rank\<close> then raises
  \<^verbatim>\<open>AttributeError\<close> at \<^verbatim>\<open>rank.isdigit()\<close>.  Otherwise the rows whose rank cell is valid are
  kept, with their index labels, in a new frame.  (On a frame without rows pandas has special
  cases of its own; the model keeps the mask reading there.)
\<close>

definition filter_valid_ranks :: "dataframe \<Rightarrow> py_error + dataframe" where
  "filter_valid_ranks df =
     (case filter (\<lambda>c. c = StrLabel ''Rank'') (columns df) of
        [] \<Rightarrow> Inl KeyError
      | [_] \<Rightarrow>
          if list_all (\<lambda>(l, r). length (cells_under (columns df) (StrLabel ''Rank'') r) = 1) (rows df)
          then Inr (df\<lparr>rows := filter
                 (\<lambda>(l, r). list_all is_valid_rank (cells_under (columns df) (StrLabel ''Rank'') r))
                 (rows df)\<rparr>)
          else Inl AttributeError
      | _ \<Rightarrow> Inl AttributeError)"

text \<open>
  \<^verbatim>\<open>clean_results_table(extracted_df)\<close>: the caller's frame after the call, and the result.
\<close>

definition clean_results_table :: "dataframe \<Rightarrow> dataframe \<times> (py_error + dataframe)" where
  "clean_results_table extracted_df =
     (case set_table_header extracted_df ''Rank'' of
        (after, Inl e) \<Rightarrow> (after, Inl e)
      | (after, Inr df) \<Rightarrow> (after, filter_valid_ranks df))"


section \<open>Properties of the string and list operations\<close>

lemma py_in_iff_sublist: "py_in sub s \<longleftrightarrow> sublist sub s"
  by (induction s) (auto simp: sublist_Cons_right)

lemma py_in_iff: "py_in sub s \<longleftrightarrow> (\<exists>before after. s = before @ sub @ after)"
  by (simp add: py_in_iff_sublist sublist_def)

lemma split_nl_nonempty: "split_nl s \<noteq> []"
  by (induction s) (auto split: list.splits)

lemma py_list_index_less: "x \<in> set xs \<Longrightarrow> py_list_index xs x < length xs"
  by (induction xs) auto

lemma py_list_index_nth: "x \<in> set xs \<Longrightarrow> xs ! py_list_index xs x = x"
  by (induction xs) auto

lemma py_list_index_first: "j < py_list_index xs x \<Longrightarrow> xs ! j \<noteq> x"
proof (induction xs arbitrary: j)
  case Nil
  then show ?case by simp
next
  case (Cons y ys)
  then show ?case by (cases j) (auto split: if_splits)
qed

lemma py_list_index_unique:
  assumes "i < length xs" and "xs ! i = x" and "\<forall>j<i. xs ! j \<noteq> x"
  shows "py_list_index xs x = i"
proof -
  have mem: "x \<in> set xs" using assms(1,2) by (auto simp: in_set_conv_nth)
  have "\<not> py_list_index xs x < i"
    using assms(3) py_list_index_nth [OF mem] by blast
  moreover have "\<not> i < py_list_index xs x"
    using py_list_index_first [of i xs x] assms(2) by blast
  ultimately show ?thesis by simp
qed


section \<open>The document classifier\<close>

text \<open>
  Claim C6.  A text that contains "Officials List" is classified as Officials List whatever
  other marker phrases it contains, and in general the first marker found in the order
  Officials List, Starting Order, Category Result Summary, (Element Score or Deductions)
  decides the type; a text with none of them is Unknown.
\<close>

theorem infer_document_type_priority:
  "(py_in ''Officials List'' text \<longrightarrow> infer_document_type text = ''Officials List'') \<and>
   (\<not> py_in ''Officials List'' text \<and> py_in ''Starting Order'' text
      \<longrightarrow> infer_document_type text = ''Starting Order'') \<and>
   (\<not> py_in ''Officials List'' text \<and> \<not> py_in ''Starting Order'' text \<and>
    py_in ''Category Result Summary'' text
      \<longrightarrow> infer_document_type text = ''Category Result Summary'') \<and>
   (\<not> py_in ''Officials List'' text \<and> \<not> py_in ''Starting Order'' text \<and>
    \<not> py_in ''Category Result Summary'' text \<and>
    (py_in ''Element Score'' text \<or> py_in ''Deductions'' text)
      \<longrightarrow> infer_document_type text = ''Detail Sheets'') \<and>
   (\<not> py_in ''Officials List'' text \<and> \<not> py_in ''Starting Order'' text \<and>
    \<not> py_in ''Category Result Summary'' text \<and>
    \<not> py_in ''Element Score'' text \<and> \<not> py_in ''Deductions'' text
      \<longrightarrow> infer_document_type text = ''Unknown'')"
  by (simp add: infer_document_type_def)

theorem infer_document_type_priority_witness:
  "py_in ''Officials List'' ''Deductions, Starting Order, Officials List'' \<and>
   py_in ''Starting Order'' ''Deductions, Starting Order, Officials List'' \<and>
   py_in ''Deductions'' ''Deductions, Starting Order, Officials List'' \<and>
   infer_document_type ''Deductions, Starting Order, Officials List'' = ''Officials List'' \<and>
   infer_document_type ''Deductions, Starting Order'' = ''Starting Order'' \<and>
   infer_document_type ''Element Score, Category Result Summary'' = ''Category Result Summary'' \<and>
   infer_document_type ''Total Deductions'' = ''Detail Sheets'' \<and>
   infer_document_type ''Page 1'' = ''Unknown''"
proof -
  have a: "py_in ''Officials List'' ''Deductions, Starting Order, Officials List''"
    by code_simp
  have a2: "py_in ''Starting Order'' ''Deductions, Starting Order, Officials List''"
    by code_simp
  have a3: "py_in ''Deductions'' ''Deductions, Starting Order, Officials List''"
    by code_simp
  have b: "\<not> py_in ''Officials List'' ''Deductions, Starting Order'' \<and>
           py_in ''Starting Order'' ''Deductions, Starting Order''"
    by code_simp
  have c: "\<not> py_in ''Officials List'' ''Element Score, Category Result Summary'' \<and>
           \<not> py_in ''Starting Order'' ''Element Score, Category Result Summary'' \<and>
           py_in ''Category Result Summary'' ''Element Score, Category Result Summary''"
    by code_simp
  have d: "\<not> py_in ''Officials List'' ''Total Deductions'' \<and>
           \<not> py_in ''Starting Order'' ''Total Deductions'' \<and>
           \<not> py_in ''Category Result Summary'' ''Total Deductions'' \<and>
           (py_in ''Element Score'' ''Total Deductions'' \<or> py_in ''Deductions'' ''Total Deductions'')"
    by code_simp
  have e: "\<not> py_in ''Officials List'' ''Page 1'' \<and> \<not> py_in ''Starting Order'' ''Page 1'' \<and>
           \<not> py_in ''Category Result Summary'' ''Page 1'' \<and>
           \<not> py_in ''Element Score'' ''Page 1'' \<and> \<not> py_in ''Deductions'' ''Page 1''"
    by code_simp
  from a infer_document_type_priority [of "''Deductions, Starting Order, Officials List''"]
  have ra: "infer_document_type ''Deductions, Starting Order, Officials List'' = ''Officials List''"
    by blast
  from b infer_document_type_priority [of "''Deductions, Starting Order''"]
  have rb: "infer_document_type ''Deductions, Starting Order'' = ''Starting Order''"
    by blast
  from c infer_document_type_priority [of "''Element Score, Category Result Summary''"]
  have rc: "infer_document_type ''Element Score, Category Result Summary'' = ''Category Result Summary''"
    by blast
  from d infer_document_type_priority [of "''Total Deductions''"]
  have rd: "infer_document_type ''Total Deductions'' = ''Detail Sheets''"
    by blast
  from e infer_document_type_priority [of "''Page 1''"]
  have re: "infer_document_type ''Page 1'' = ''Unknown''"
    by blast
  from a a2 a3 ra rb rc rd re show ?thesis by blast
qed


section \<open>The date-line locator\<close>

lemma first_date_line_None: "first_date_line ls = None \<longleftrightarrow> (\<forall>l\<in>set ls. \<not> is_date_line l)"
  by (induction ls) auto

lemma first_date_line_Some:
  "first_date_line ls = Some l \<Longrightarrow>
     \<exists>i<length ls. ls ! i = l \<and> is_date_line l \<and> (\<forall>j<i. \<not> is_date_line (ls ! j))"
proof (induction ls)
  case Nil
  then show ?case by simp
next
  case (Cons a ls)
  show ?case
  proof (cases "is_date_line a")
    case True
    with Cons.prems have "a = l" by simp
    with True show ?thesis by (intro exI [of _ 0]) simp
  next
    case False
    with Cons.prems have "first_date_line ls = Some l" by simp
    from Cons.IH [OF this] obtain i where
      i: "i < length ls" "ls ! i = l" "is_date_line l" "\<forall>j<i. \<not> is_date_line (ls ! j)"
      by blast
    have "\<forall>j<Suc i. \<not> is_date_line ((a # ls) ! j)"
      using False i(4) by (auto simp: less_Suc_eq_0_disj)
    with i show ?thesis by (intro exI [of _ "Suc i"]) simp
  qed
qed

lemma first_date_line_at:
  "i < length ls \<Longrightarrow> is_date_line (ls ! i) \<Longrightarrow> \<forall>j<i. \<not> is_date_line (ls ! j) \<Longrightarrow>
     first_date_line ls = Some (ls ! i)"
proof (induction ls arbitrary: i)
  case Nil
  then show ?case by simp
next
  case (Cons a ls)
  show ?case
  proof (cases i)
    case 0
    with Cons.prems show ?thesis by simp
  next
    case (Suc k)
    from Cons.prems(3) Suc have na: "\<not> is_date_line a" by force
    from Cons.prems(3) Suc have "\<forall>j<k. \<not> is_date_line (ls ! j)" by force
    with Cons.IH [of k] Cons.prems(1,2) Suc have "first_date_line ls = Some (ls ! k)" by simp
    with na Suc show ?thesis by simp
  qed
qed

lemma find_competition_date_line_Some:
  assumes "find_competition_date_line text = Some line"
  shows "\<exists>i. i < min 10 (length (text_lines text)) \<and> text_lines text ! i = line \<and>
             is_date_line line \<and> (\<forall>j<i. \<not> is_date_line (text_lines text ! j))"
proof -
  from assms have "first_date_line (take 10 (text_lines text)) = Some line"
    by (simp add: find_competition_date_line_def)
  from first_date_line_Some [OF this] obtain i where
    i: "i < length (take 10 (text_lines text))" "take 10 (text_lines text) ! i = line"
       "is_date_line line" "\<forall>j<i. \<not> is_date_line (take 10 (text_lines text) ! j)"
    by blast
  from i(1) have lt: "i < 10" "i < length (text_lines text)" by simp_all
  from i(2) lt have "text_lines text ! i = line" by simp
  moreover from i(4) lt have "\<forall>j<i. \<not> is_date_line (text_lines text ! j)" by simp
  ultimately show ?thesis using lt i(3) by (intro exI [of _ i]) simp
qed

lemma date_line_index_Some:
  assumes "i < length (text_lines text)" and "text_lines text ! i = line"
    and "is_date_line line" and "\<forall>j<i. \<not> is_date_line (text_lines text ! j)"
    and "find_competition_date_line text = Some line"
  shows "date_line_index text = int i"
proof -
  have mem: "line \<in> set (text_lines text)"
    using assms(1,2) by (auto simp: in_set_conv_nth)
  have "\<forall>j<i. text_lines text ! j \<noteq> line"
    using assms(3,4) by metis
  with assms(1,2) have "py_list_index (text_lines text) line = i"
    by (rule py_list_index_unique)
  with mem assms(5) show ?thesis by (simp add: date_line_index_def)
qed

lemma date_line_index_None:
  "find_competition_date_line text = None \<Longrightarrow> date_line_index text = - 1"
  by (simp add: date_line_index_def)

lemma date_line_index_found:
  assumes "find_competition_date_line text = Some line"
  shows "0 \<le> date_line_index text \<and> date_line_index text < int (length (text_lines text)) \<and>
         date_line_index text < 10"
proof -
  from find_competition_date_line_Some [OF assms] obtain i where
    i: "i < min 10 (length (text_lines text))" "text_lines text ! i = line"
       "is_date_line line" "\<forall>j<i. \<not> is_date_line (text_lines text ! j)"
    by blast
  from i(1) have "i < length (text_lines text)" by simp
  from date_line_index_Some [OF this i(2,3,4) assms] have "date_line_index text = int i" .
  with i(1) show ?thesis by simp
qed

text \<open>
  Claim C7.  With \<open>lines\<close> the line list \<^verbatim>\<open>text.strip().split('\n')\<close> the locator works
  on: when none of the first ten lines contains a match of either date pattern, the
  locator returns \<^verbatim>\<open>None\<close>; when it returns a line, that line is the topmost line
  with a match, it stands at an index below \<open>min 10 (len lines)\<close>, and that index is the
  one \<^verbatim>\<open>lines.index\<close> then computes; the result depends on the first ten lines only.
\<close>

theorem find_competition_date_line_window:
  "((\<forall>l\<in>set (take 10 (text_lines text)). \<not> is_date_line l)
       \<longrightarrow> find_competition_date_line text = None) \<and>
   (find_competition_date_line text = Some line
       \<longrightarrow> (\<exists>i. i < min 10 (length (text_lines text)) \<and> text_lines text ! i = line \<and>
                is_date_line line \<and> (\<forall>j<i. \<not> is_date_line (text_lines text ! j)) \<and>
                date_line_index text = int i)) \<and>
   (take 10 (text_lines text) = take 10 (text_lines text')
       \<longrightarrow> find_competition_date_line text = find_competition_date_line text')"
proof (intro conjI impI)
  assume "\<forall>l\<in>set (take 10 (text_lines text)). \<not> is_date_line l"
  then show "find_competition_date_line text = None"
    by (simp add: find_competition_date_line_def first_date_line_None)
next
  assume found: "find_competition_date_line text = Some line"
  from find_competition_date_line_Some [OF found] obtain i where
    i: "i < min 10 (length (text_lines text))" "text_lines text ! i = line"
       "is_date_line line" "\<forall>j<i. \<not> is_date_line (text_lines text ! j)"
    by blast
  from i(1) have "i < length (text_lines text)" by simp
  from date_line_index_Some [OF this i(2,3,4) found] have "date_line_index text = int i" .
  with i show "\<exists>i. i < min 10 (length (text_lines text)) \<and> text_lines text ! i = line \<and>
                is_date_line line \<and> (\<forall>j<i. \<not> is_date_line (text_lines text ! j)) \<and>
                date_line_index text = int i"
    by blast
next
  assume "take 10 (text_lines text) = take 10 (text_lines text')"
  then show "find_competition_date_line text = find_competition_date_line text'"
    by (simp add: find_competition_date_line_def)
qed

theorem find_competition_date_line_window_witness:
  "find_competition_date_line ''a\<newline>b\<newline>c\<newline>d\<newline>e\<newline>f\<newline>g\<newline>h\<newline>i\<newline>j\<newline>July 14-16, 2024'' = None \<and>
   find_competition_date_line ''a\<newline>b\<newline>c\<newline>d\<newline>e\<newline>f\<newline>g\<newline>h\<newline>i\<newline>j\<newline>July 14-16, 2024'' =
   find_competition_date_line ''a\<newline>b\<newline>c\<newline>d\<newline>e\<newline>f\<newline>g\<newline>h\<newline>i\<newline>j\<newline>Page 2'' \<and>
   find_competition_date_line ''Spring Classic\<newline>July 14-16, 2024\<newline>1/2/2024 to 3/2/2024''
     = Some ''July 14-16, 2024'' \<and>
   date_line_index ''Spring Classic\<newline>July 14-16, 2024\<newline>1/2/2024 to 3/2/2024'' < 3"
proof -
  let ?A = "''a\<newline>b\<newline>c\<newline>d\<newline>e\<newline>f\<newline>g\<newline>h\<newline>i\<newline>j\<newline>July 14-16, 2024''"
  let ?A' = "''a\<newline>b\<newline>c\<newline>d\<newline>e\<newline>f\<newline>g\<newline>h\<newline>i\<newline>j\<newline>Page 2''"
  let ?B = "''Spring Classic\<newline>July 14-16, 2024\<newline>1/2/2024 to 3/2/2024''"
  have h1: "\<forall>l\<in>set (take 10 (text_lines ?A)). \<not> is_date_line l"
    by code_simp
  have h2: "take 10 (text_lines ?A) = take 10 (text_lines ?A')"
    by code_simp
  have h3: "find_competition_date_line ?B = Some ''July 14-16, 2024''"
    by code_simp
  have len: "length (text_lines ?B) = 3"
    by code_simp
  note w = find_competition_date_line_window
  from h1 w [of ?A] have r1: "find_competition_date_line ?A = None" by blast
  from h2 w [of ?A _ ?A'] have r2: "find_competition_date_line ?A = find_competition_date_line ?A'"
    by blast
  from h3 w [of ?B "''July 14-16, 2024''"] obtain i where
    "i < min 10 (length (text_lines ?B))" "date_line_index ?B = int i" by blast
  with len have r3: "date_line_index ?B < 3" by simp
  from r1 r2 h3 r3 show ?thesis by blast
qed


section \<open>A date with one month and one day\<close>

text \<open>
  Claim C8.  The line "July 14, 2024" has one month name, one day, a four-digit year and no
  range token, and the written-month pattern is found in it (the two digit groups of the
  pattern share the digits of the day).  So when it is one of the first ten lines the
  locator returns a line, and it returns this very line when no line above it has a match.
\<close>

theorem single_day_date_line_found:
  assumes "i < 10" and "i < length (text_lines text)"
    and "text_lines text ! i = ''July 14, 2024''"
  shows "rx_search written_month_pattern ''July 14, 2024'' \<and>
         find_competition_date_line text \<noteq> None \<and>
         ((\<forall>j<i. \<not> is_date_line (text_lines text ! j))
            \<longrightarrow> find_competition_date_line text = Some ''July 14, 2024'')"
proof -
  have m: "rx_search written_month_pattern ''July 14, 2024''"
    by code_simp
  then have d: "is_date_line ''July 14, 2024''"
    by (simp add: is_date_line_def date_patterns_def)
  let ?ls = "take 10 (text_lines text)"
  from assms have li: "i < length ?ls" and at: "?ls ! i = ''July 14, 2024''"
    by simp_all
  then have "''July 14, 2024'' \<in> set ?ls"
    by (auto simp: in_set_conv_nth)
  with d have some: "find_competition_date_line text \<noteq> None"
    unfolding find_competition_date_line_def first_date_line_None by blast
  have "find_competition_date_line text = Some ''July 14, 2024''"
    if none: "\<forall>j<i. \<not> is_date_line (text_lines text ! j)"
  proof -
    from none assms(1) have "\<forall>j<i. \<not> is_date_line (?ls ! j)" by simp
    from first_date_line_at [OF li _ this] at d show ?thesis
      by (simp add: find_competition_date_line_def)
  qed
  with m some show ?thesis by blast
qed

theorem single_day_date_line_found_witness:
  "rx_search written_month_pattern ''July 14, 2024'' \<and>
   find_competition_date_line ''Spring Classic\<newline>Toronto, ON\<newline>July 14, 2024\<newline>Senior Women''
     = Some ''July 14, 2024''"
proof -
  let ?T = "''Spring Classic\<newline>Toronto, ON\<newline>July 14, 2024\<newline>Senior Women''"
  have a: "(2::nat) < 10" by simp
  have b: "2 < length (text_lines ?T)" by code_simp
  have c: "text_lines ?T ! 2 = ''July 14, 2024''" by code_simp
  have d: "\<forall>j<2. \<not> is_date_line (text_lines ?T ! j)" by code_simp
  from single_day_date_line_found [OF a b c] d show ?thesis by blast
qed

section \<open>Properties of header extraction\<close>

lemma find_competition_date_line_mem:
  assumes "find_competition_date_line text = Some line"
  shows "line \<in> set (text_lines text)"
proof -
  from find_competition_date_line_Some [OF assms] obtain i where
    "i < min 10 (length (text_lines text))" "text_lines text ! i = line" by blast
  then show ?thesis by (auto simp: in_set_conv_nth)
qed

lemma date_line_index_absent_iff:
  "date_line_index text = - 1 \<longleftrightarrow> find_competition_date_line text = None"
proof (cases "find_competition_date_line text")
  case None
  then show ?thesis by (simp add: date_line_index_def)
next
  case (Some line)
  from find_competition_date_line_mem [OF Some] Some show ?thesis
    by (simp add: date_line_index_def)
qed

lemma category_result_summary_falls_through:
  assumes "infer_document_type text = ''Category Result Summary''"
  shows "extract_header_info text =
           (if find_competition_date_line text = None then Inr (Some []) else Inr None)"
  using assms by (simp add: extract_header_info_def date_line_index_absent_iff Let_def)

text \<open>
  Claim C1, evaluated on the code.  The text below is classified as Category Result Summary
  and its date line is found at index 2, yet \<^verbatim>\<open>extract_header_info\<close> returns \<^verbatim>\<open>None\<close>:
  the membership test names "Result Summary", which the classifier never returns.  The
  same text with the marker "Starting Order" gets the event-sheet header.
\<close>

theorem category_result_summary_returns_None:
  "infer_document_type
     ''Spring Classic\<newline>Toronto, ON\<newline>July 14-16, 2024\<newline>Senior Women Free Skate\<newline>Category Result Summary''
     = ''Category Result Summary'' \<and>
   date_line_index
     ''Spring Classic\<newline>Toronto, ON\<newline>July 14-16, 2024\<newline>Senior Women Free Skate\<newline>Category Result Summary''
     = 2 \<and>
   extract_header_info
     ''Spring Classic\<newline>Toronto, ON\<newline>July 14-16, 2024\<newline>Senior Women Free Skate\<newline>Category Result Summary''
     = Inr None \<and>
   extract_header_info
     ''Spring Classic\<newline>Toronto, ON\<newline>July 14-16, 2024\<newline>Senior Women Free Skate\<newline>Starting Order''
     = Inr (Some [(''Competition Name'', ''Spring Classic''), (''Location'', ''Toronto, ON''),
                  (''Date Range'', ''July 14-16, 2024''), (''Event'', ''Senior Women Free Skate''),
                  (''Document Type'', ''Starting Order'')])"
  by code_simp

lemma py_get_nat: "i < length xs \<Longrightarrow> py_get xs (int i) = Inr (xs ! i)"
  by (simp add: py_get_def)

lemma extract_detail_sheets_header_info_ok:
  assumes "4 \<le> length lines"
  shows "extract_detail_sheets_header_info lines document_type =
           Inr [(''Competition Name'', py_strip (lines ! 0)),
                (''Location'', py_strip (lines ! 2)),
                (''Date Range'', py_strip (lines ! 1)),
                (''Event'', py_strip (lines ! 3)),
                (''Document Type'', document_type)]"
proof -
  from assms have "py_get lines 0 = Inr (lines ! 0)" "py_get lines 1 = Inr (lines ! 1)"
    "py_get lines 2 = Inr (lines ! 2)" "py_get lines 3 = Inr (lines ! 3)"
    by (auto simp: py_get_def)
  then show ?thesis by (simp add: extract_detail_sheets_header_info_def)
qed

text \<open>
  Claim C2 fails as stated: a detail sheet of five lines without a date line gets the empty
  dict, not the positional record.
\<close>

theorem detail_sheets_header_needs_no_date_line_counterexample:
  "infer_document_type ''Skater One\<newline>Free Skate\<newline>Toronto\<newline>Senior Women\<newline>Element Score''
     = ''Detail Sheets'' \<and>
   4 \<le> length (text_lines ''Skater One\<newline>Free Skate\<newline>Toronto\<newline>Senior Women\<newline>Element Score'') \<and>
   find_competition_date_line ''Skater One\<newline>Free Skate\<newline>Toronto\<newline>Senior Women\<newline>Element Score''
     = None \<and>
   extract_header_info ''Skater One\<newline>Free Skate\<newline>Toronto\<newline>Senior Women\<newline>Element Score''
     = Inr (Some []) \<and>
   extract_header_info ''Skater One\<newline>Free Skate\<newline>Toronto\<newline>Senior Women\<newline>Element Score''
     \<noteq> Inr (Some [(''Competition Name'', ''Skater One''), (''Location'', ''Toronto''),
                  (''Date Range'', ''Free Skate''), (''Event'', ''Senior Women''),
                  (''Document Type'', ''Detail Sheets'')])"
  by code_simp

text \<open>
  Claim C2, amended.  For a text classified as Detail Sheets with at least four lines, header
  extraction returns the positional record (line 0, line 2, line 1, line 3, each stripped of
  edge whitespace) when the locator finds a date line in the first ten lines, and the
  empty dict when it finds none.
\<close>

theorem extract_header_info_detail_sheets:
  assumes "infer_document_type text = ''Detail Sheets''"
    and "4 \<le> length (text_lines text)"
  shows "extract_header_info text =
           (if find_competition_date_line text = None then Inr (Some [])
            else Inr (Some [(''Competition Name'', py_strip (text_lines text ! 0)),
                            (''Location'', py_strip (text_lines text ! 2)),
                            (''Date Range'', py_strip (text_lines text ! 1)),
                            (''Event'', py_strip (text_lines text ! 3)),
                            (''Document Type'', ''Detail Sheets'')]))"
  using assms(1) extract_detail_sheets_header_info_ok [OF assms(2), of "''Detail Sheets''"]
  by (simp add: extract_header_info_def date_line_index_absent_iff Let_def)

theorem extract_header_info_detail_sheets_witness:
  "extract_header_info ''Skater One\<newline>Free Skate\<newline>Toronto\<newline>Senior Women\<newline>Element Score''
     = Inr (Some []) \<and>
   extract_header_info ''Spring Classic \<newline>July 14-16, 2024\<newline> Toronto\<newline>Senior Women\<newline>Deductions''
     = Inr (Some [(''Competition Name'', ''Spring Classic''), (''Location'', ''Toronto''),
                  (''Date Range'', ''July 14-16, 2024''), (''Event'', ''Senior Women''),
                  (''Document Type'', ''Detail Sheets'')])"
proof -
  let ?A = "''Skater One\<newline>Free Skate\<newline>Toronto\<newline>Senior Women\<newline>Element Score''"
  let ?B = "''Spring Classic \<newline>July 14-16, 2024\<newline> Toronto\<newline>Senior Women\<newline>Deductions''"
  have a1: "infer_document_type ?A = ''Detail Sheets''" by code_simp
  have a2: "4 \<le> length (text_lines ?A)" by code_simp
  have a3: "find_competition_date_line ?A = None" by code_simp
  have b1: "infer_document_type ?B = ''Detail Sheets''" by code_simp
  have b2: "4 \<le> length (text_lines ?B)" by code_simp
  have b3: "find_competition_date_line ?B \<noteq> None" by code_simp
  have b4: "py_strip (text_lines ?B ! 0) = ''Spring Classic'' \<and>
            py_strip (text_lines ?B ! 2) = ''Toronto'' \<and>
            py_strip (text_lines ?B ! 1) = ''July 14-16, 2024'' \<and>
            py_strip (text_lines ?B ! 3) = ''Senior Women''" by code_simp
  from extract_header_info_detail_sheets [OF a1 a2] a3
  have ra: "extract_header_info ?A = Inr (Some [])" by simp
  from extract_header_info_detail_sheets [OF b1 b2] b3 b4
  have rb: "extract_header_info ?B
     = Inr (Some [(''Competition Name'', ''Spring Classic''), (''Location'', ''Toronto''),
                  (''Date Range'', ''July 14-16, 2024''), (''Event'', ''Senior Women''),
                  (''Document Type'', ''Detail Sheets'')])" by simp
  from ra rb show ?thesis by blast
qed


lemma py_slice_to_nat: "py_slice_to xs (int k) = take k xs"
  by (simp add: py_slice_to_def)

text \<open>
  Claim C5 fails as stated.  With the date line at index 0 no line stands before index
  \<open>i - 1\<close>, yet the competition name is made of all lines but the last and the location
  is the last line; and at index 3 the competition name is the stripped join, which differs
  from the join of the lines before index 2.
\<close>

theorem event_sheet_header_layout_counterexample:
  "date_line_index ''July 14-16, 2024\<newline>Starting Order\<newline>Page 1'' = 0 \<and>
   extract_header_info ''July 14-16, 2024\<newline>Starting Order\<newline>Page 1''
     = Inr (Some [(''Competition Name'', ''July 14-16, 2024 Starting Order''),
                  (''Location'', ''Page 1''), (''Date Range'', ''July 14-16, 2024''),
                  (''Event'', ''Starting Order''), (''Document Type'', ''Starting Order'')]) \<and>
   py_join '' '' (take (0 - 1) (text_lines ''July 14-16, 2024\<newline>Starting Order\<newline>Page 1'')) = [] \<and>
   extract_event_sheets_header_info
       [''Spring'', ''Classic '', ''Toronto, ON'', ''July 14-16, 2024'', ''Senior Women'']
       ''Starting Order'' 3
     = Inr [(''Competition Name'', ''Spring Classic''),
            (''Location'', ''Toronto, ON''), (''Date Range'', ''July 14-16, 2024''),
            (''Event'', ''Senior Women''), (''Document Type'', ''Starting Order'')] \<and>
   py_join '' ''
       (take (3 - 1) [''Spring'', ''Classic '', ''Toronto, ON'', ''July 14-16, 2024'', ''Senior Women''])
     = ''Spring Classic ''"
  by code_simp

text \<open>
  Claim C5, amended.  For a date-line index \<open>i \<ge> 1\<close> with line \<open>i + 1\<close> present, the
  event-sheet header has Location, Date Range and Event equal to lines \<open>i - 1\<close>, \<open>i\<close> and
  \<open>i + 1\<close>, each stripped of edge whitespace, and Competition Name equal to the space-joined
  lines before index \<open>i - 1\<close>, stripped of edge whitespace as well.
\<close>

theorem extract_event_sheets_header_info_layout:
  assumes "1 \<le> i" and "i + 1 < length lines"
  shows "extract_event_sheets_header_info lines document_type (int i) =
           Inr [(''Competition Name'', py_strip (py_join '' '' (take (i - 1) lines))),
                (''Location'', py_strip (lines ! (i - 1))),
                (''Date Range'', py_strip (lines ! i)),
                (''Event'', py_strip (lines ! (i + 1))),
                (''Document Type'', document_type)]"
proof -
  from assms have pred: "int i - 1 = int (i - 1)" and succ: "int i + 1 = int (i + 1)"
    by simp_all
  have g1: "py_get lines (int (i - 1)) = Inr (lines ! (i - 1))"
    using assms by (intro py_get_nat) simp
  have g2: "py_get lines (int i) = Inr (lines ! i)"
    using assms by (intro py_get_nat) simp
  have g3: "py_get lines (int (i + 1)) = Inr (lines ! (i + 1))"
    using assms by (intro py_get_nat) simp
  show ?thesis
    unfolding extract_event_sheets_header_info_def pred succ py_slice_to_nat g1 g2 g3 by simp
qed

theorem extract_event_sheets_header_info_layout_witness:
  "extract_event_sheets_header_info
       [''Spring'', ''Classic '', '' Toronto, ON'', ''July 14-16, 2024 '', ''Senior Women'', ''Page 1'']
       ''Officials List'' 3
     = Inr [(''Competition Name'', ''Spring Classic''),
            (''Location'', ''Toronto, ON''), (''Date Range'', ''July 14-16, 2024''),
            (''Event'', ''Senior Women''), (''Document Type'', ''Officials List'')]"
proof -
  let ?L = "[''Spring'', ''Classic '', '' Toronto, ON'', ''July 14-16, 2024 '', ''Senior Women'', ''Page 1'']"
  have a: "1 \<le> (3::nat)" by simp
  have b: "3 + 1 < length ?L" by simp
  have c: "py_strip (py_join '' '' (take (3 - 1) ?L)) = ''Spring Classic'' \<and>
           py_strip (?L ! (3 - 1)) = ''Toronto, ON'' \<and>
           py_strip (?L ! 3) = ''July 14-16, 2024'' \<and>
           py_strip (?L ! (3 + 1)) = ''Senior Women''"
    by code_simp
  from extract_event_sheets_header_info_layout [OF a b, of "''Officials List''"] c
  show ?thesis by simp
qed


section \<open>Valid ranks\<close>

subsection \<open>The parser accepts the grammar of \<^verbatim>\<open>float\<close>\<close>






lemma no_split:
  assumes "\<forall>c\<in>set a. P c"
  shows "takeWhile P a = a" and "dropWhile P a = []"
  using assms by simp_all























section \<open>Table normalisation\<close>

lemma find_header_row_enumerate_None:
  "find_header_row kw (enumerate n grid) = None \<longleftrightarrow> (\<forall>row\<in>set grid. \<not> list_ex (py_in kw) row)"
  by (induction grid arbitrary: n) auto

lemma find_header_row_enumerate_first:
  "i < length grid \<Longrightarrow> list_ex (py_in kw) (grid ! i) \<Longrightarrow>
   \<forall>j<i. \<not> list_ex (py_in kw) (grid ! j) \<Longrightarrow>
     find_header_row kw (enumerate n grid) = Some (n + i)"
proof (induction grid arbitrary: n i)
  case Nil
  then show ?case by simp
next
  case (Cons row grid)
  show ?case
  proof (cases i)
    case 0
    with Cons.prems show ?thesis by simp
  next
    case (Suc k)
    from Cons.prems(3) Suc have miss: "\<not> list_ex (py_in kw) row" by force
    from Cons.prems(3) Suc have "\<forall>j<k. \<not> list_ex (py_in kw) (grid ! j)" by force
    with Cons.IH [of k "Suc n"] Cons.prems(1,2) Suc
    have "find_header_row kw (enumerate (Suc n) grid) = Some (Suc n + k)" by simp
    with miss Suc show ?thesis by simp
  qed
qed

lemma drop_labelled_rows:
  "map snd (filter (\<lambda>(l, r). l \<notin> set [0..<k]) (enumerate n grid)) = drop (k - n) grid"
proof (induction grid arbitrary: n)
  case Nil
  then show ?case by simp
next
  case (Cons row grid)
  show ?case
  proof (cases "n < k")
    case True
    then have "k - n = Suc (k - Suc n)" by simp
    with True Cons.IH [of "Suc n"] show ?thesis by simp
  next
    case False
    then have "k - n = 0" "k - Suc n = 0" by simp_all
    with False Cons.IH [of "Suc n"] show ?thesis by simp
  qed
qed

lemma raw_table_no_rank_column:
  "filter (\<lambda>c. c = StrLabel name) (columns (raw_table grid)) = []"
  by (simp add: raw_table_def filter_empty_conv)

lemma set_table_header_raw_miss:
  assumes "\<forall>row\<in>set grid. \<not> list_ex (py_in kw) row"
  shows "set_table_header (raw_table grid) kw = (raw_table grid, Inr (raw_table grid))"
proof -
  from assms have "find_header_row kw (rows (raw_table grid)) = None"
    by (simp add: raw_table_def find_header_row_enumerate_None)
  then show ?thesis by (simp add: set_table_header_def)
qed

lemma set_table_header_raw_found:
  assumes "i < length grid" and "list_ex (py_in kw) (grid ! i)"
    and "\<forall>j<i. \<not> list_ex (py_in kw) (grid ! j)"
  shows "set_table_header (raw_table grid) kw =
           ((raw_table grid)\<lparr>columns := map StrLabel (grid ! i)\<rparr>,
            Inr \<lparr>columns = map StrLabel (grid ! i), rows = enumerate 0 (drop (Suc i) grid)\<rparr>)"
proof -
  have found: "find_header_row kw (rows (raw_table grid)) = Some i"
    using find_header_row_enumerate_first [OF assms, of 0] by (simp add: raw_table_def)
  have len: "i < length (rows (raw_table grid))"
    using assms(1) by (simp add: raw_table_def)
  have row: "snd (rows (raw_table grid) ! i) = grid ! i"
    using assms(1) by (simp add: raw_table_def nth_enumerate_eq)
  have "fst ` set (rows (raw_table grid)) = {0..<length grid}"
    using map_fst_enumerate [of 0 grid] by (metis add_0 raw_table_def select_convs(2) set_map set_upt)
  with assms(1) have labels:
    "list_all (\<lambda>l. l \<in> fst ` set (rows (raw_table grid))) [0..<i + 1]"
    by (simp add: list_all_iff)
  have kept: "reset_index (filter (\<lambda>(l, r). l \<notin> set [0..<i + 1]) (rows (raw_table grid)))
                = enumerate 0 (drop (Suc i) grid)"
    using drop_labelled_rows [of "i + 1" 0 grid] by (simp add: reset_index_def raw_table_def)
  show ?thesis
    unfolding set_table_header_def found
    using len row labels kept by (simp add: Let_def raw_table_def)
qed

lemma clean_results_table_raw_miss:
  assumes "\<forall>row\<in>set grid. \<not> list_ex (py_in ''Rank'') row"
  shows "clean_results_table (raw_table grid) = (raw_table grid, Inl KeyError)"
  using set_table_header_raw_miss [OF assms] raw_table_no_rank_column [of "''Rank''" grid]
  by (simp add: clean_results_table_def filter_valid_ranks_def)

text \<open>
  Claim C3, evaluated on the code.  No cell of the grid below contains "Rank".
  \<^verbatim>\<open>set_table_header\<close> returns the frame as it is, and \<^verbatim>\<open>clean_results_table\<close> then raises
  \<^verbatim>\<open>KeyError\<close> at \<^verbatim>\<open>df['Rank']\<close>, as \<open>clean_results_table_raw_miss\<close> shows for every
  such grid.
\<close>

theorem clean_results_table_without_keyword_raises:
  "set_table_header (raw_table [[''Section'', ''Notes''], ['''', ''No entries'']]) ''Rank''
     = (raw_table [[''Section'', ''Notes''], ['''', ''No entries'']],
        Inr (raw_table [[''Section'', ''Notes''], ['''', ''No entries'']])) \<and>
   clean_results_table (raw_table [[''Section'', ''Notes''], ['''', ''No entries'']])
     = (raw_table [[''Section'', ''Notes''], ['''', ''No entries'']], Inl KeyError)"
  by code_simp

text \<open>
  Claim C4 fails as stated: after \<^verbatim>\<open>clean_results_table\<close> has returned, the frame that was
  passed in carries the cells of the header row as its column labels, no longer 0 and 1.
\<close>

theorem clean_results_table_mutates_columns_counterexample:
  "fst (clean_results_table
          (raw_table [[''Rank'', ''Name''], [''1'', ''A. Smith''], ['''', ''Page 1 of 1'']]))
     \<noteq> raw_table [[''Rank'', ''Name''], [''1'', ''A. Smith''], ['''', ''Page 1 of 1'']] \<and>
   columns (raw_table [[''Rank'', ''Name''], [''1'', ''A. Smith''], ['''', ''Page 1 of 1'']])
     = [IntLabel 0, IntLabel 1] \<and>
   columns (fst (clean_results_table
          (raw_table [[''Rank'', ''Name''], [''1'', ''A. Smith''], ['''', ''Page 1 of 1'']])))
     = [StrLabel ''Rank'', StrLabel ''Name''] \<and>
   snd (clean_results_table
          (raw_table [[''Rank'', ''Name''], [''1'', ''A. Smith''], ['''', ''Page 1 of 1'']]))
     = Inr \<lparr>columns = [StrLabel ''Rank'', StrLabel ''Name''], rows = [(0, [''1'', ''A. Smith''])]\<rparr>"
  by code_simp

text \<open>
  Claim C4, amended.  For every raw grid the call leaves the rows of the frame passed in
  (index labels and cells) as they were.  When no row has a cell containing "Rank" the frame
  is unchanged altogether; when row \<open>i\<close> is the first row with such a cell, the column labels
  of the frame passed in are overwritten with the cells of row \<open>i\<close>, and nothing else changes.
\<close>

theorem clean_results_table_input_effect:
  "rows (fst (clean_results_table (raw_table grid))) = rows (raw_table grid) \<and>
   ((\<forall>row\<in>set grid. \<not> list_ex (py_in ''Rank'') row)
      \<longrightarrow> fst (clean_results_table (raw_table grid)) = raw_table grid) \<and>
   (i < length grid \<and> list_ex (py_in ''Rank'') (grid ! i) \<and>
    (\<forall>j<i. \<not> list_ex (py_in ''Rank'') (grid ! j))
      \<longrightarrow> fst (clean_results_table (raw_table grid))
            = (raw_table grid)\<lparr>columns := map StrLabel (grid ! i)\<rparr>)"
proof -
  have miss: "fst (clean_results_table (raw_table grid)) = raw_table grid"
    if "\<forall>row\<in>set grid. \<not> list_ex (py_in ''Rank'') row"
    using clean_results_table_raw_miss [OF that] by simp
  have hit: "fst (clean_results_table (raw_table grid))
               = (raw_table grid)\<lparr>columns := map StrLabel (grid ! k)\<rparr>"
    if "k < length grid" "list_ex (py_in ''Rank'') (grid ! k)"
      "\<forall>j<k. \<not> list_ex (py_in ''Rank'') (grid ! j)" for k
    using set_table_header_raw_found [OF that] by (simp add: clean_results_table_def)
  have "rows (fst (clean_results_table (raw_table grid))) = rows (raw_table grid)"
  proof (cases "\<forall>row\<in>set grid. \<not> list_ex (py_in ''Rank'') row")
    case True
    with miss show ?thesis by simp
  next
    case False
    then have ex: "\<exists>k. k < length grid \<and> list_ex (py_in ''Rank'') (grid ! k)"
      by (metis in_set_conv_nth)
    define k where "k = (LEAST k. k < length grid \<and> list_ex (py_in ''Rank'') (grid ! k))"
    from ex have k: "k < length grid \<and> list_ex (py_in ''Rank'') (grid ! k)"
      unfolding k_def by (rule LeastI_ex)
    have "\<forall>j<k. \<not> list_ex (py_in ''Rank'') (grid ! j)"
    proof (intro allI impI notI)
      fix j assume "j < k" "list_ex (py_in ''Rank'') (grid ! j)"
      with k have "j < length grid \<and> list_ex (py_in ''Rank'') (grid ! j)" by simp
      then have "k \<le> j" unfolding k_def by (rule Least_le)
      with \<open>j < k\<close> show False by simp
    qed
    with k hit [of k] show ?thesis by simp
  qed
  with miss hit [of i] show ?thesis by blast
qed

theorem clean_results_table_input_effect_witness:
  "fst (clean_results_table (raw_table [[''Section'', ''Notes''], ['''', ''No entries'']]))
     = raw_table [[''Section'', ''Notes''], ['''', ''No entries'']] \<and>
   fst (clean_results_table
          (raw_table [['''', ''Results''], [''Rank'', ''Name''], [''1'', ''A. Smith'']]))
     = \<lparr>columns = [StrLabel ''Rank'', StrLabel ''Name''],
        rows = [(0, ['''', ''Results'']), (1, [''Rank'', ''Name'']), (2, [''1'', ''A. Smith''])]\<rparr>"
proof -
  let ?A = "[[''Section'', ''Notes''], ['''', ''No entries'']]"
  let ?B = "[['''', ''Results''], [''Rank'', ''Name''], [''1'', ''A. Smith'']]"
  have a: "\<forall>row\<in>set ?A. \<not> list_ex (py_in ''Rank'') row" by code_simp
  have b: "1 < length ?B \<and> list_ex (py_in ''Rank'') (?B ! 1) \<and>
           (\<forall>j<1. \<not> list_ex (py_in ''Rank'') (?B ! j))" by code_simp
  have c: "(raw_table ?B)\<lparr>columns := map StrLabel (?B ! 1)\<rparr>
     = \<lparr>columns = [StrLabel ''Rank'', StrLabel ''Name''],
        rows = [(0, ['''', ''Results'']), (1, [''Rank'', ''Name'']), (2, [''1'', ''A. Smith''])]\<rparr>"
    by code_simp
  from a clean_results_table_input_effect [of ?A]
  have ra: "fst (clean_results_table (raw_table ?A)) = raw_table ?A" by blast
  from b clean_results_table_input_effect [of ?B 1]
  have "fst (clean_results_table (raw_table ?B)) = (raw_table ?B)\<lparr>columns := map StrLabel (?B ! 1)\<rparr>"
    by blast
  with c have rb: "fst (clean_results_table (raw_table ?B))
     = \<lparr>columns = [StrLabel ''Rank'', StrLabel ''Name''],
        rows = [(0, ['''', ''Results'']), (1, [''Rank'', ''Name'']), (2, [''1'', ''A. Smith''])]\<rparr>"
    by simp
  from ra rb show ?thesis by blast
qed

text \<open>
  Claim C10.  When the first row of a raw grid with a cell containing "Rank" has no cell equal
  to "Rank", \<^verbatim>\<open>set_table_header\<close> still takes that row as the header (its cells become the
  column labels, the rows after it are kept and renumbered), and \<^verbatim>\<open>clean_results_table\<close>
  raises \<^verbatim>\<open>KeyError\<close> instead of returning a table.
\<close>

theorem header_row_without_exact_rank_raises:
  assumes "i < length grid" and "list_ex (py_in ''Rank'') (grid ! i)"
    and "\<forall>j<i. \<not> list_ex (py_in ''Rank'') (grid ! j)"
    and "''Rank'' \<notin> set (grid ! i)"
  shows "set_table_header (raw_table grid) ''Rank'' =
           ((raw_table grid)\<lparr>columns := map StrLabel (grid ! i)\<rparr>,
            Inr \<lparr>columns = map StrLabel (grid ! i), rows = enumerate 0 (drop (Suc i) grid)\<rparr>) \<and>
         snd (clean_results_table (raw_table grid)) = Inl KeyError"
proof -
  note hdr = set_table_header_raw_found [OF assms(1,2,3)]
  from assms(4) have "filter (\<lambda>c. c = StrLabel ''Rank'') (map StrLabel (grid ! i)) = []"
    by (auto simp: filter_empty_conv)
  with hdr have "snd (clean_results_table (raw_table grid)) = Inl KeyError"
    by (simp add: clean_results_table_def filter_valid_ranks_def)
  with hdr show ?thesis by simp
qed

theorem header_row_without_exact_rank_raises_witness:
  "set_table_header (raw_table [['''', ''Results''], [''Ranking'', ''Name''], [''1'', ''A. Smith'']]) ''Rank''
     = (\<lparr>columns = [StrLabel ''Ranking'', StrLabel ''Name''],
         rows = [(0, ['''', ''Results'']), (1, [''Ranking'', ''Name'']), (2, [''1'', ''A. Smith''])]\<rparr>,
        Inr \<lparr>columns = [StrLabel ''Ranking'', StrLabel ''Name''],
             rows = [(0, [''1'', ''A. Smith''])]\<rparr>) \<and>
   snd (clean_results_table
          (raw_table [['''', ''Results''], [''Ranking'', ''Name''], [''1'', ''A. Smith'']]))
     = Inl KeyError"
proof -
  let ?G = "[['''', ''Results''], [''Ranking'', ''Name''], [''1'', ''A. Smith'']]"
  have a: "1 < length ?G" by simp
  have b: "list_ex (py_in ''Rank'') (?G ! 1)" by code_simp
  have c: "\<forall>j<1. \<not> list_ex (py_in ''Rank'') (?G ! j)" by code_simp
  have d: "''Rank'' \<notin> set (?G ! 1)" by code_simp
  have e: "(raw_table ?G)\<lparr>columns := map StrLabel (?G ! 1)\<rparr>
     = \<lparr>columns = [StrLabel ''Ranking'', StrLabel ''Name''],
         rows = [(0, ['''', ''Results'']), (1, [''Ranking'', ''Name'']), (2, [''1'', ''A. Smith''])]\<rparr>"
    by code_simp
  have f: "\<lparr>columns = map StrLabel (?G ! 1), rows = enumerate 0 (drop (Suc 1) ?G)\<rparr>
     = \<lparr>columns = [StrLabel ''Ranking'', StrLabel ''Name''], rows = [(0, [''1'', ''A. Smith''])]\<rparr>"
    by code_simp
  from header_row_without_exact_rank_raises [OF a b c d] e f show ?thesis by simp
qed

end
